theory Spec2Isabelle
  imports Complex_Main "HOL-Library.Word"
begin

unbundle bit_operations_syntax

section \<open>Geometry codec (polyline.ts)\<close>

text \<open>
  A JavaScript string is a sequence of 16-bit code units. \<open>ascii\<close> embeds an ASCII
  literal. \<open>charCodeAt\<close> yields the code unit at an index, and NaN (here \<open>None\<close>)
  when the index is out of range; it never throws.
\<close>

type_synonym jsstring = "16 word list"

definition ascii :: "string \<Rightarrow> jsstring" where
  "ascii s = map (\<lambda>c. of_nat (of_char c)) s"

definition charCodeAt :: "jsstring \<Rightarrow> nat \<Rightarrow> int option" where
  "charCodeAt s i = (if i < length s then Some (uint (s ! i)) else None)"

text \<open>
  The bitwise operators of JavaScript work on 32-bit integers: \<open>result\<close> is a
  \<open>32 word\<close>, \<open>x << shift\<close> shifts by \<open>shift mod 32\<close>, \<open>>>\<close> is the
  arithmetic shift and \<open>~\<close> the complement. The value read back is the signed one.

  \<open>result & 1 ? ~(result >> 1) : result >> 1\<close>
\<close>

definition unzigzag :: "32 word \<Rightarrow> int" where
  "unzigzag result =
     (if result AND 1 \<noteq> 0 then sint (NOT (signed_drop_bit 1 result))
      else sint (signed_drop_bit 1 result))"

text \<open>
  One \<open>do { byte = encoded.charCodeAt(index++) - 63; result |= (byte & 0x1f) << shift;
  shift += 5; } while (byte >= 0x20)\<close> loop. It returns \<open>result\<close> and the new \<open>index\<close>.
  Past the end of the string \<open>byte\<close> is NaN: \<open>NaN & 0x1f\<close> is 0, so \<open>result\<close> is
  unchanged, and \<open>NaN >= 0x20\<close> is false, so the loop ends.
\<close>

function readGroups :: "jsstring \<Rightarrow> nat \<Rightarrow> nat \<Rightarrow> 32 word \<Rightarrow> 32 word \<times> nat" where
  "readGroups encoded index shift result =
     (case charCodeAt encoded index of
        None \<Rightarrow> (result, Suc index)
      | Some c \<Rightarrow>
          (let byte = c - 63;
               result' = result OR push_bit (shift mod 32) (word_of_int byte AND 0x1f)
           in if byte \<ge> 0x20 then readGroups encoded (Suc index) (shift + 5) result'
              else (result', Suc index)))"
  by pat_completeness auto
termination
  by (relation "measure (\<lambda>(encoded, index, shift, result). length encoded - index)")
     (auto simp: charCodeAt_def split: if_splits)

declare readGroups.simps [simp del]

lemma readGroups_index: "index < snd (readGroups encoded index shift result)"
proof (induction encoded index shift result rule: readGroups.induct)
  case (1 encoded index shift result)
  show ?case
  proof (cases "charCodeAt encoded index")
    case None
    then show ?thesis by (subst readGroups.simps) simp
  next
    case (Some c)
    show ?thesis
    proof (cases "c - 63 \<ge> 0x20")
      case True
      with Some "1.IH" [OF Some refl refl True] show ?thesis
        by (subst readGroups.simps) (simp add: Let_def Suc_lessD)
    next
      case False
      with Some show ?thesis by (subst readGroups.simps) (simp add: Let_def)
    qed
  qed
qed

text \<open>
  The outer \<open>while (index < encoded.length)\<close> loop: a latitude delta, a longitude
  delta, and \<open>points.push([lat / 1e5, lng / 1e5])\<close>. \<open>lat\<close> and \<open>lng\<close> are sums of
  32-bit deltas held in a number, exact below \<open>2^53\<close>; the pushed coordinates are the
  quotients, of which the JavaScript number is the correctly rounded value.
\<close>

function decodeLoop ::
  "jsstring \<Rightarrow> nat \<Rightarrow> int \<Rightarrow> int \<Rightarrow> (real \<times> real) list \<Rightarrow> (real \<times> real) list" where
  "decodeLoop encoded index lat lng points =
     (if index < length encoded then
        (let (result1, index1) = readGroups encoded index 0 0;
             lat' = lat + unzigzag result1;
             (result2, index2) = readGroups encoded index1 0 0;
             lng' = lng + unzigzag result2
         in decodeLoop encoded index2 lat' lng'
              (points @ [(real_of_int lat' / 100000, real_of_int lng' / 100000)]))
      else points)"
  by pat_completeness auto
termination
proof (relation "measure (\<lambda>(encoded, index, lat, lng, points). length encoded - index)",
       goal_cases)
  case 1
  show ?case by simp
next
  case (2 encoded index lat lng points x result1 index1 lat' y result2 index2)
  have "index < index1"
    using readGroups_index [of index encoded 0 0] 2 by (metis snd_conv)
  moreover have "index1 < index2"
    using readGroups_index [of index1 encoded 0 0] 2 by (metis snd_conv)
  ultimately show ?case using 2 by simp
qed

declare decodeLoop.simps [simp del]

definition decodePolyline :: "jsstring \<Rightarrow> (real \<times> real) list" where
  "decodePolyline encoded = decodeLoop encoded 0 0 0 []"


text \<open>
  The same two loops transcribed with no termination argument: a run that never leaves a
  loop has the value \<open>None\<close>.
\<close>

partial_function (option) readGroups_run ::
  "jsstring \<Rightarrow> nat \<Rightarrow> nat \<Rightarrow> 32 word \<Rightarrow> (32 word \<times> nat) option" where
  "readGroups_run encoded index shift result =
     (case charCodeAt encoded index of
        None \<Rightarrow> Some (result, Suc index)
      | Some c \<Rightarrow>
          (let byte = c - 63;
               result' = result OR push_bit (shift mod 32) (word_of_int byte AND 0x1f)
           in if byte \<ge> 0x20 then readGroups_run encoded (Suc index) (shift + 5) result'
              else Some (result', Suc index)))"

partial_function (option) decodeLoop_run ::
  "jsstring \<Rightarrow> nat \<Rightarrow> int \<Rightarrow> int \<Rightarrow> (real \<times> real) list \<Rightarrow> (real \<times> real) list option" where
  "decodeLoop_run encoded index lat lng points =
     (if index < length encoded then
        Option.bind (readGroups_run encoded index 0 0) (\<lambda>(result1, index1).
          let lat' = lat + unzigzag result1 in
          Option.bind (readGroups_run encoded index1 0 0) (\<lambda>(result2, index2).
            let lng' = lng + unzigzag result2 in
            decodeLoop_run encoded index2 lat' lng'
              (points @ [(real_of_int lat' / 100000, real_of_int lng' / 100000)])))
      else Some points)"

definition decodePolyline_run :: "jsstring \<Rightarrow> (real \<times> real) list option" where
  "decodePolyline_run encoded = decodeLoop_run encoded 0 0 0 []"

section \<open>Demand ledger (demand.ts)\<close>

text \<open>
  A demand as the caller passes it (\<open>Omit<DemandRecord, 'id' | 'createdAt'>\<close>) and as it
  is stored. \<open>createdAt\<close> is an ISO string in the source; it is kept here as the time value
  that \<open>new Date(d.createdAt)\<close> reads back from it: \<open>Some t\<close>, in milliseconds since the
  epoch, for the string that \<open>toISOString\<close> wrote at time \<open>t\<close>, and \<open>None\<close> for a string
  that is no date (an Invalid Date, every comparison with which is false).
\<close>

record DemandInput =
  villageId :: string
  originCity :: string
  desiredDate :: string
  partySize :: int
  email :: "string option"

record DemandRecord = DemandInput +
  demand_id :: string
  createdAt :: "int option"

text \<open>
  The item under the key \<open>horiohop_demands\<close>, which any script of the origin can write:
  never written or empty (\<open>getItem\<close> gives a falsy value), unreadable (\<open>getItem\<close> or
  \<open>JSON.parse\<close> throws), a text that parses to a value that is not an array (null, an
  object, a number, a string, a boolean), or the JSON text of an array, whose elements
  are taken to be records. \<open>accepts\<close> tells whether \<open>setItem\<close> takes a collection or
  throws (quota exceeded, storage disabled); a refused write leaves the item as it was.
\<close>

datatype stored_item = NoItem | Unreadable | NonArray | Saved "DemandRecord list"

record localStorage =
  item :: stored_item
  accepts :: "DemandRecord list \<Rightarrow> bool"

text \<open>
  \<open>getDemands\<close> returns \<open>JSON.parse(stored)\<close> as it is, with no check that it is an
  array; only a throw is caught and gives \<open>[]\<close>. A value that is not an array has no
  callable \<open>push\<close> or \<open>filter\<close>: the call on it throws a TypeError.
\<close>

datatype demands_value = Demands "DemandRecord list" | NotArray

datatype ledger_error = LedgerTypeError | SaveFailed

definition getDemands :: "localStorage \<Rightarrow> demands_value" where
  "getDemands ls =
     (case item ls of
        Saved demands \<Rightarrow> Demands demands
      | NonArray \<Rightarrow> NotArray
      | NoItem \<Rightarrow> Demands []
      | Unreadable \<Rightarrow> Demands [])"

definition setItem :: "localStorage \<Rightarrow> DemandRecord list \<Rightarrow> localStorage option" where
  "setItem ls demands = (if accepts ls demands then Some (ls\<lparr>item := Saved demands\<rparr>) else None)"

text \<open>\<open>{ ...demand, id: crypto.randomUUID(), createdAt: new Date().toISOString() }\<close>\<close>

definition newDemand :: "DemandInput \<Rightarrow> string \<Rightarrow> int \<Rightarrow> DemandRecord" where
  "newDemand demand uuid now =
     \<lparr>villageId = villageId demand, originCity = originCity demand,
      desiredDate = desiredDate demand, partySize = partySize demand, email = email demand,
      demand_id = uuid, createdAt = Some now\<rparr>"

text \<open>
  \<open>addDemand\<close>, given the identifier that \<open>crypto.randomUUID()\<close> returns and the current
  time. The result is the thrown error or the returned record, with the storage after
  the call. \<open>demands.push(newDemand)\<close> stands before the \<open>try\<close> block; only a throw of
  \<open>setItem\<close> is caught and rethrown as the save failure.
\<close>

definition addDemand ::
  "localStorage \<Rightarrow> string \<Rightarrow> int \<Rightarrow> DemandInput \<Rightarrow> (ledger_error + DemandRecord) \<times> localStorage" where
  "addDemand ls uuid now demand =
     (let newRecord = newDemand demand uuid now
      in case getDemands ls of
           NotArray \<Rightarrow> (Inl LedgerTypeError, ls)
         | Demands demands \<Rightarrow>
             (case setItem ls (demands @ [newRecord]) of
                None \<Rightarrow> (Inl SaveFailed, ls)
              | Some ls' \<Rightarrow> (Inr newRecord, ls')))"

text \<open>
  \<open>thirtyDaysAgo.setDate(thirtyDaysAgo.getDate() - 30)\<close> works on local time: the time
  value is moved to local time, 30 days of 86400000 ms are taken off, and the result is
  moved back to UTC. The two offsets of the host's time zone (at a UTC time, at a local
  time) are parameters; they differ across a daylight-saving change.
\<close>

record timezone =
  offsetAtUtc :: "int \<Rightarrow> int"
  offsetAtLocal :: "int \<Rightarrow> int"

definition msPerDay :: int where
  "msPerDay = 86400000"

definition thirtyDaysAgo :: "timezone \<Rightarrow> int \<Rightarrow> int" where
  "thirtyDaysAgo tz now =
     (let t = now + offsetAtUtc tz now;
          newDate = t - 30 * msPerDay
      in newDate - offsetAtLocal tz newDate)"

text \<open>\<open>new Date(d.createdAt) > thirtyDaysAgo\<close>\<close>

definition laterThan :: "int option \<Rightarrow> int \<Rightarrow> bool" where
  "laterThan created cutoff = (case created of None \<Rightarrow> False | Some t \<Rightarrow> cutoff < t)"

definition getDemandCountForVillage ::
  "timezone \<Rightarrow> localStorage \<Rightarrow> int \<Rightarrow> string \<Rightarrow> ledger_error + nat" where
  "getDemandCountForVillage tz ls now v =
     (case getDemands ls of
        NotArray \<Rightarrow> Inl LedgerTypeError
      | Demands demands \<Rightarrow>
          Inr (length (filter (\<lambda>d. villageId d = v
                                 \<and> laterThan (createdAt d) (thirtyDaysAgo tz now)) demands)))"

text \<open>
  \<open>getAllDemandCounts\<close> accumulates in an object literal \<open>{}\<close>, which inherits the
  members of \<open>Object.prototype\<close>. For a key that is not an own property, \<open>acc[k]\<close> reads
  the inherited member when \<open>k\<close> names one: a function (truthy), so that
  \<open>(acc[k] || 0) + 1\<close> is a string, not a number; for \<open>__proto__\<close> the assignment
  of that string is ignored. The accumulator is the map of own properties.
\<close>

datatype count_value = Count nat | Text

definition objectPrototypeProperties :: "string list" where
  "objectPrototypeProperties =
     [''constructor'', ''__defineGetter__'', ''__defineSetter__'', ''hasOwnProperty'',
      ''__lookupGetter__'', ''__lookupSetter__'', ''isPrototypeOf'',
      ''propertyIsEnumerable'', ''toString'', ''valueOf'', ''__proto__'',
      ''toLocaleString'']"

definition countStep :: "(string \<rightharpoonup> count_value) \<Rightarrow> DemandRecord \<Rightarrow> (string \<rightharpoonup> count_value)" where
  "countStep acc d =
     (let k = villageId d in
      case acc k of
        Some (Count n) \<Rightarrow> acc(k \<mapsto> Count (n + 1))
      | Some Text \<Rightarrow> acc(k \<mapsto> Text)
      | None \<Rightarrow>
          if k = ''__proto__'' then acc
          else if k \<in> set objectPrototypeProperties then acc(k \<mapsto> Text)
          else acc(k \<mapsto> Count 1))"

definition getAllDemandCounts ::
  "timezone \<Rightarrow> localStorage \<Rightarrow> int \<Rightarrow> ledger_error + (string \<rightharpoonup> count_value)" where
  "getAllDemandCounts tz ls now =
     (case getDemands ls of
        NotArray \<Rightarrow> Inl LedgerTypeError
      | Demands demands \<Rightarrow>
          Inr (foldl countStep Map.empty
                 (filter (\<lambda>d. laterThan (createdAt d) (thirtyDaysAgo tz now)) demands)))"

text \<open>The value of the mapping at a key, 0 when the key is absent.\<close>

definition countAt :: "(string \<rightharpoonup> count_value) \<Rightarrow> string \<Rightarrow> count_value" where
  "countAt counts v = (case counts v of None \<Rightarrow> Count 0 | Some c \<Rightarrow> c)"

text \<open>
  The words of the specification and of the docstring (\<open>last 30 days\<close>): the records
  of an entity whose \<open>createdAt\<close> lies in the window that trails \<open>windowDays\<close> days of
  24 hours behind now and ends at now.
\<close>

definition inTrailingWindow :: "int \<Rightarrow> int \<Rightarrow> int option \<Rightarrow> bool" where
  "inTrailingWindow windowDays now created =
     (case created of
        None \<Rightarrow> False
      | Some t \<Rightarrow> now - windowDays * 86400000 < t \<and> t \<le> now)"

definition countFor_spec :: "DemandRecord list \<Rightarrow> int \<Rightarrow> string \<Rightarrow> nat" where
  "countFor_spec demands now v =
     length (filter (\<lambda>d. villageId d = v \<and> inTrailingWindow 30 now (createdAt d)) demands)"

text \<open>Hosts for the examples: a time zone with no offset, and a storage that takes every
  write.\<close>

definition utc :: timezone where
  "utc = \<lparr>offsetAtUtc = (\<lambda>t. 0), offsetAtLocal = (\<lambda>t. 0)\<rparr>"

definition unlimited :: "DemandRecord list \<Rightarrow> bool" where
  "unlimited demands = True"

section \<open>Routing client (routing.ts)\<close>

text \<open>
  The body of a response is whatever \<open>JSON.parse\<close> produces; the type assertions of the
  source (\<open>raw as {...}\<close>) check nothing at run time. A value read from it is a
  \<open>json option\<close>, with \<open>None\<close> for \<open>undefined\<close>. In an object with a repeated key
  the last entry counts.
\<close>

datatype json =
    JNull
  | JBool bool
  | JNum real
  | JStr jsstring
  | JArr "json list"
  | JObj "(string \<times> json) list"

datatype js_error = TypeError | SyntaxError | FetchError | MotisApiError nat

text \<open>
  \<open>ownProp v k\<close> is the property \<open>k\<close> of a value that is neither null nor undefined.
  None of the keys read by the client names a member of a prototype, so that only the
  own properties of an object count. \<open>dotProp\<close> is \<open>v.k\<close>, which throws on null and
  undefined; \<open>optionalProp\<close> is \<open>v?.k\<close>.
\<close>

fun ownProp :: "json \<Rightarrow> string \<Rightarrow> json option" where
  "ownProp (JObj entries) k = map_of (rev entries) k"
| "ownProp v k = None"

fun dotProp :: "json option \<Rightarrow> string \<Rightarrow> js_error + json option" where
  "dotProp None k = Inl TypeError"
| "dotProp (Some JNull) k = Inl TypeError"
| "dotProp (Some v) k = Inr (ownProp v k)"

fun optionalProp :: "json option \<Rightarrow> string \<Rightarrow> json option" where
  "optionalProp None k = None"
| "optionalProp (Some JNull) k = None"
| "optionalProp (Some v) k = ownProp v k"

fun truthy :: "json option \<Rightarrow> bool" where
  "truthy None = False"
| "truthy (Some JNull) = False"
| "truthy (Some (JBool b)) = b"
| "truthy (Some (JNum n)) = (n \<noteq> 0)"
| "truthy (Some (JStr s)) = (s \<noteq> [])"
| "truthy (Some (JArr items)) = True"
| "truthy (Some (JObj entries)) = True"

text \<open>\<open>a || b\<close> with a default \<open>b\<close> that is a literal\<close>

definition orElse :: "json option \<Rightarrow> json \<Rightarrow> json" where
  "orElse a b = (case a of None \<Rightarrow> b | Some v \<Rightarrow> if truthy (Some v) then v else b)"

record Place =
  place_name :: json
  place_lat :: json
  place_lng :: json
  stopId :: "json option"

datatype leg_mode = WALK | TRANSIT

record Leg =
  mode :: leg_mode
  leg_from :: Place
  leg_to :: Place
  departureTime :: json
  arrivalTime :: json
  leg_duration :: json
  distance :: "json option"
  routeShortName :: "json option"
  routeLongName :: "json option"
  agencyName :: "json option"
  headsign :: "json option"
  polyline :: "(real \<times> real) list"

record Itinerary =
  duration :: json
  startTime :: json
  endTime :: json
  walkDistance :: json
  transfers :: json
  legs :: "Leg list"

text \<open>
  \<open>decodePolyline\<close> applied to whatever truthy value \<open>legGeometry.points\<close> holds. A
  string is decoded. A number or a boolean has no \<open>length\<close>, so that the loop is not
  entered. An array has a \<open>length\<close> and no \<open>charCodeAt\<close>: the call throws unless the
  array is empty. For an object, \<open>0 < encoded.length\<close> compares with its \<open>length\<close>
  property; on a string, an array or an object that comparison coerces the operand,
  which is left to the parameter \<open>positive\<close> (true also when the coercion throws); when
  the loop is entered the call of \<open>charCodeAt\<close> throws.
\<close>

fun lengthPositive :: "(json \<Rightarrow> bool) \<Rightarrow> json option \<Rightarrow> bool" where
  "lengthPositive positive None = False"
| "lengthPositive positive (Some JNull) = False"
| "lengthPositive positive (Some (JBool b)) = b"
| "lengthPositive positive (Some (JNum n)) = (0 < n)"
| "lengthPositive positive (Some v) = positive v"

fun decodePolylineOf :: "(json \<Rightarrow> bool) \<Rightarrow> json \<Rightarrow> js_error + (real \<times> real) list" where
  "decodePolylineOf positive (JStr encoded) = Inr (decodePolyline encoded)"
| "decodePolylineOf positive (JArr items) = (if items = [] then Inr [] else Inl TypeError)"
| "decodePolylineOf positive (JObj entries) =
     (if lengthPositive positive (ownProp (JObj entries) ''length'') then Inl TypeError else Inr [])"
| "decodePolylineOf positive JNull = Inl TypeError"
| "decodePolylineOf positive v = Inr []"

text \<open>\<open>rawLeg.legGeometry?.points ? decodePolyline(rawLeg.legGeometry.points) : []\<close>\<close>

definition legPolyline :: "(json \<Rightarrow> bool) \<Rightarrow> json \<Rightarrow> js_error + (real \<times> real) list" where
  "legPolyline positive leg =
     (case optionalProp (ownProp leg ''legGeometry'') ''points'' of
        None \<Rightarrow> Inr []
      | Some points \<Rightarrow> if truthy (Some points) then decodePolylineOf positive points else Inr [])"

definition parsePlace :: "json option \<Rightarrow> Place" where
  "parsePlace place =
     \<lparr>place_name = orElse (optionalProp place ''name'') (JStr (ascii ''Unknown'')),
      place_lat = orElse (optionalProp place ''lat'') (JNum 0),
      place_lng = orElse (optionalProp place ''lon'') (JNum 0),
      stopId = optionalProp place ''stopId''\<rparr>"

text \<open>The callback of \<open>rawItinerary.legs.map\<close>. \<open>rawLeg.mode\<close> throws on a null leg.\<close>

definition parseLeg :: "(json \<Rightarrow> bool) \<Rightarrow> json \<Rightarrow> js_error + Leg" where
  "parseLeg positive leg =
     (case dotProp (Some leg) ''mode'' of
        Inl error \<Rightarrow> Inl error
      | Inr rawMode \<Rightarrow>
          (case legPolyline positive leg of
             Inl error \<Rightarrow> Inl error
           | Inr line \<Rightarrow>
               Inr \<lparr>mode = (if rawMode = Some (JStr (ascii ''WALK'')) then WALK else TRANSIT),
                    leg_from = parsePlace (ownProp leg ''from''),
                    leg_to = parsePlace (ownProp leg ''to''),
                    departureTime =
                      orElse (ownProp leg ''startTime'')
                        (orElse (ownProp leg ''departureTime'') (JStr [])),
                    arrivalTime =
                      orElse (ownProp leg ''endTime'')
                        (orElse (ownProp leg ''arrivalTime'') (JStr [])),
                    leg_duration = orElse (ownProp leg ''duration'') (JNum 0),
                    distance = ownProp leg ''distance'',
                    routeShortName = ownProp leg ''routeShortName'',
                    routeLongName = ownProp leg ''routeLongName'',
                    agencyName = ownProp leg ''agencyName'',
                    headsign = ownProp leg ''headsign'',
                    polyline = line\<rparr>))"

text \<open>\<open>Array.prototype.map\<close> with a callback that may throw: the first throw ends it.\<close>

fun mapItems :: "('a \<Rightarrow> js_error + 'b) \<Rightarrow> 'a list \<Rightarrow> js_error + 'b list" where
  "mapItems f [] = Inr []"
| "mapItems f (x # xs) =
     (case f x of
        Inl error \<Rightarrow> Inl error
      | Inr y \<Rightarrow> (case mapItems f xs of Inl error \<Rightarrow> Inl error | Inr ys \<Rightarrow> Inr (y # ys)))"

text \<open>\<open>Math.max(0, legs.filter((l) => l.mode !== 'WALK').length - 1)\<close>\<close>

definition derivedTransfers :: "Leg list \<Rightarrow> int" where
  "derivedTransfers ls = max 0 (int (length (filter (\<lambda>l. mode l \<noteq> WALK) ls)) - 1)"

text \<open>
  \<open>parseItinerary\<close>. \<open>rawItinerary.legs.map(...)\<close> throws unless \<open>legs\<close> is an array:
  on a null itinerary, on a missing \<open>legs\<close>, and on any other value, which has no
  callable \<open>map\<close>.
\<close>

definition parseItinerary :: "(json \<Rightarrow> bool) \<Rightarrow> json \<Rightarrow> js_error + Itinerary" where
  "parseItinerary positive raw =
     (case dotProp (Some raw) ''legs'' of
        Inl error \<Rightarrow> Inl error
      | Inr (Some (JArr items)) \<Rightarrow>
          (case mapItems (parseLeg positive) items of
             Inl error \<Rightarrow> Inl error
           | Inr ls \<Rightarrow>
               Inr \<lparr>duration = orElse (ownProp raw ''duration'') (JNum 0),
                    startTime = orElse (ownProp raw ''startTime'') (JStr []),
                    endTime = orElse (ownProp raw ''endTime'') (JStr []),
                    walkDistance = orElse (ownProp raw ''walkDistance'') (JNum 0),
                    transfers =
                      orElse (ownProp raw ''transfers'') (JNum (real_of_int (derivedTransfers ls))),
                    legs = ls\<rparr>)
      | Inr other \<Rightarrow> Inl TypeError)"

text \<open>
  What \<open>fetch\<close> does with the request: it rejects (network failure), or resolves with a
  status and a body, which \<open>response.json()\<close> parses or rejects.
\<close>

datatype response_body = NotJson | Json json

datatype fetch_outcome = FetchRejected | Responded nat response_body

record LatLng =
  lat :: real
  lng :: real

text \<open>The \<open>try\<close> block of \<open>planJourney\<close>, with what it returns or throws.\<close>

definition tryPlan :: "(json \<Rightarrow> bool) \<Rightarrow> fetch_outcome \<Rightarrow> js_error + Itinerary list" where
  "tryPlan positive outcome =
     (case outcome of
        FetchRejected \<Rightarrow> Inl FetchError
      | Responded status body \<Rightarrow>
          if \<not> (200 \<le> status \<and> status \<le> 299) then
            (if status = 404 then Inr [] else Inl (MotisApiError status))
          else
            (case body of
               NotJson \<Rightarrow> Inl SyntaxError
             | Json data \<Rightarrow>
                 (case dotProp (Some data) ''itineraries'' of
                    Inl error \<Rightarrow> Inl error
                  | Inr itineraries \<Rightarrow>
                      if \<not> truthy itineraries then Inr []
                      else (case itineraries of
                              Some (JArr items) \<Rightarrow> mapItems (parseItinerary positive) items
                            | other \<Rightarrow> Inl TypeError))))"

text \<open>
  The \<open>catch\<close> block: it logs, and returns \<open>[]\<close> on both of its paths, the one for a
  message with \<open>Failed to fetch\<close> and the other.
\<close>

definition catchBlock :: "js_error \<Rightarrow> js_error + Itinerary list" where
  "catchBlock error = (case error of FetchError \<Rightarrow> Inr [] | other \<Rightarrow> Inr [])"

text \<open>
  \<open>planJourney\<close>, with the time value of \<open>departureTime\<close>, a timestamp: the caller
  passes \<open>new Date()\<close>, for which \<open>toISOString\<close> returns while the request is built.
  The result is what the returned promise settles with: \<open>Inl\<close> for a rejection.
\<close>

definition planJourney ::
  "(json \<Rightarrow> bool) \<Rightarrow> (LatLng \<Rightarrow> LatLng \<Rightarrow> int \<Rightarrow> fetch_outcome) \<Rightarrow>
   LatLng \<Rightarrow> LatLng \<Rightarrow> int \<Rightarrow> js_error + Itinerary list" where
  "planJourney positive engine origin destination time =
     (case tryPlan positive (engine origin destination time) of
        Inl error \<Rightarrow> catchBlock error
      | Inr itineraries \<Rightarrow> Inr itineraries)"

text \<open>
  Engines for the examples. No value in the examples holds a \<open>length\<close> property, so
  that the comparison \<open>positive\<close> is never consulted there; \<open>noCoercion\<close> fills its
  place and is no model of the coercion of JavaScript.
\<close>

definition noCoercion :: "json \<Rightarrow> bool" where
  "noCoercion v = False"

definition engineDown :: "LatLng \<Rightarrow> LatLng \<Rightarrow> int \<Rightarrow> fetch_outcome" where
  "engineDown origin destination time = FetchRejected"

definition engineNoRoute :: "LatLng \<Rightarrow> LatLng \<Rightarrow> int \<Rightarrow> fetch_outcome" where
  "engineNoRoute origin destination time = Responded 404 NotJson"

definition engineGarbled :: "LatLng \<Rightarrow> LatLng \<Rightarrow> int \<Rightarrow> fetch_outcome" where
  "engineGarbled origin destination time = Responded 200 NotJson"

definition engineNoField :: "LatLng \<Rightarrow> LatLng \<Rightarrow> int \<Rightarrow> fetch_outcome" where
  "engineNoField origin destination time = Responded 200 (Json (JObj []))"

definition engineBadLegs :: "LatLng \<Rightarrow> LatLng \<Rightarrow> int \<Rightarrow> fetch_outcome" where
  "engineBadLegs origin destination time =
     Responded 200 (Json (JObj [(''itineraries'', JArr [JObj []])]))"

definition engineNotArray :: "LatLng \<Rightarrow> LatLng \<Rightarrow> int \<Rightarrow> fetch_outcome" where
  "engineNotArray origin destination time =
     Responded 200 (Json (JObj [(''itineraries'', JNum 5)]))"

definition engineNullLeg :: "LatLng \<Rightarrow> LatLng \<Rightarrow> int \<Rightarrow> fetch_outcome" where
  "engineNullLeg origin destination time =
     Responded 200 (Json (JObj [(''itineraries'', JArr [JObj [(''legs'', JArr [JNull])]])]))"

definition engineNumberLeg :: "LatLng \<Rightarrow> LatLng \<Rightarrow> int \<Rightarrow> fetch_outcome" where
  "engineNumberLeg origin destination time =
     Responded 200 (Json (JObj [(''itineraries'', JArr [JObj [(''legs'', JArr [JNum 5])]])]))"

section \<open>Journey orchestrator (AppContext.tsx)\<close>

text \<open>
  Of a village the orchestrator reads the identifier and the coordinates, and React
  compares the object itself: \<open>object_ref\<close> is the identity of the object, so that two
  villages are equal exactly when they are the same object. The demand counts of the
  application state belong to the ledger and are left out; no transition below reads
  them.
\<close>

record Village = LatLng +
  village_id :: string
  object_ref :: nat

datatype direction = ToVillage | FromVillage

datatype view = MapView | DataView

record AppState =
  currentView :: view
  userLocation :: "LatLng option"
  locationLoading :: bool
  locationError :: "string option"
  selectedCity :: "string option"
  selectedVillage :: "Village option"
  sidebarOpen :: bool
  routesToVillage :: "Itinerary list"
  routesFromVillage :: "Itinerary list"
  routesLoading :: bool
  routesError :: "string option"
  selectedRoute :: "(direction \<times> nat) option"
  demandModalOpen :: bool

text \<open>
  The origin of a journey: coordinates, or, for a city name that names a member of
  \<open>Object.prototype\<close>, the inherited member that \<open>CITY_COORDS[city]\<close> reads (truthy,
  and no coordinate).
\<close>

datatype origin_value = Coordinates LatLng | Inherited string

definition CITY_COORDS :: "string \<Rightarrow> origin_value option" where
  "CITY_COORDS city =
     (if city = ''Nicosia'' then Some (Coordinates \<lparr>lat = 35.1856, lng = 33.3823\<rparr>)
      else if city = ''Limassol'' then Some (Coordinates \<lparr>lat = 34.6823, lng = 33.0464\<rparr>)
      else if city = ''Larnaca'' then Some (Coordinates \<lparr>lat = 34.9229, lng = 33.6233\<rparr>)
      else if city = ''Paphos'' then Some (Coordinates \<lparr>lat = 34.7754, lng = 32.4245\<rparr>)
      else if city \<in> set objectPrototypeProperties then Some (Inherited city)
      else None)"

text \<open>\<open>state.userLocation || (state.selectedCity ? CITY_COORDS[state.selectedCity] : null)\<close>\<close>

definition originOf :: "AppState \<Rightarrow> origin_value option" where
  "originOf st =
     (case userLocation st of
        Some location \<Rightarrow> Some (Coordinates location)
      | None \<Rightarrow>
          (case selectedCity st of
             None \<Rightarrow> None
           | Some city \<Rightarrow> if city = [] then None else CITY_COORDS city))"

text \<open>
  A call of \<open>fetchRoutes\<close> that has not settled yet, with the origin and the village its
  closure holds. The orchestrator is the application state with the calls in flight.
\<close>

record fetch_request =
  request_origin :: origin_value
  request_village :: Village

record Orchestrator =
  app :: AppState
  inflight :: "fetch_request list"

definition initialState :: AppState where
  "initialState =
     \<lparr>currentView = MapView, userLocation = None, locationLoading = True,
      locationError = None, selectedCity = None, selectedVillage = None,
      sidebarOpen = False, routesToVillage = [], routesFromVillage = [],
      routesLoading = False, routesError = None, selectedRoute = None,
      demandModalOpen = False\<rparr>"

definition initial :: Orchestrator where
  "initial = \<lparr>app = initialState, inflight = []\<rparr>"

text \<open>
  The events: the two callbacks of the geolocation request, the actions of the context,
  and the settling of the call in flight at a position, with the two route lists of
  \<open>Promise.all\<close> or the message of a rejection.
\<close>

datatype event =
    GeolocationSuccess LatLng
  | GeolocationError string
  | SetCurrentView view
  | SetSelectedCity "string option"
  | SetSelectedVillage "Village option"
  | SetSidebarOpen bool
  | SetSelectedRoute "(direction \<times> nat) option"
  | SetDemandModalOpen bool
  | FetchSettled nat "string + Itinerary list \<times> Itinerary list"

text \<open>The updater that each event passes to \<open>setState\<close>.\<close>

fun setState :: "event \<Rightarrow> AppState \<Rightarrow> AppState" where
  "setState (GeolocationSuccess location) prev =
     prev\<lparr>userLocation := Some location, locationLoading := False, locationError := None\<rparr>"
| "setState (GeolocationError message) prev =
     prev\<lparr>locationLoading := False, locationError := Some message\<rparr>"
| "setState (SetCurrentView v) prev = prev\<lparr>currentView := v\<rparr>"
| "setState (SetSelectedCity city) prev = prev\<lparr>selectedCity := city\<rparr>"
| "setState (SetSelectedVillage village) prev =
     prev\<lparr>selectedVillage := village, sidebarOpen := (village \<noteq> None), selectedRoute := None\<rparr>"
| "setState (SetSidebarOpen opened) prev = prev\<lparr>sidebarOpen := opened\<rparr>"
| "setState (SetSelectedRoute route) prev = prev\<lparr>selectedRoute := route\<rparr>"
| "setState (SetDemandModalOpen opened) prev = prev\<lparr>demandModalOpen := opened\<rparr>"
| "setState (FetchSettled k (Inr (routesTo, routesFrom))) prev =
     prev\<lparr>routesToVillage := routesTo, routesFromVillage := routesFrom, routesLoading := False\<rparr>"
| "setState (FetchSettled k (Inl message)) prev =
     prev\<lparr>routesLoading := False, routesError := Some message,
          routesToVillage := [], routesFromVillage := []\<rparr>"

text \<open>
  The effect that fetches the routes. It runs after a render in which one of its
  dependencies \<open>[state.selectedVillage, state.userLocation, state.selectedCity]\<close> has
  changed under \<open>Object.is\<close>: another village object, another city string, and every
  success of the geolocation, whose callback builds a new location object. It has no
  cleanup function, and a call in flight is neither cancelled nor marked.
\<close>

definition dependenciesChanged :: "event \<Rightarrow> AppState \<Rightarrow> AppState \<Rightarrow> bool" where
  "dependenciesChanged ev prev next =
     (case ev of
        GeolocationSuccess location \<Rightarrow> True
      | other \<Rightarrow>
          selectedVillage next \<noteq> selectedVillage prev
          \<or> userLocation next \<noteq> userLocation prev
          \<or> selectedCity next \<noteq> selectedCity prev)"

definition routeEffect :: "Orchestrator \<Rightarrow> Orchestrator" where
  "routeEffect s =
     (let st = app s in
      case selectedVillage st of
        None \<Rightarrow> s\<lparr>app := st\<lparr>routesToVillage := [], routesFromVillage := []\<rparr>\<rparr>
      | Some village \<Rightarrow>
          if userLocation st = None \<and> (selectedCity st = None \<or> selectedCity st = Some [])
          then s\<lparr>app := st\<lparr>routesToVillage := [], routesFromVillage := []\<rparr>\<rparr>
          else
            (case originOf st of
               None \<Rightarrow> s
             | Some origin \<Rightarrow>
                 s\<lparr>app := st\<lparr>routesLoading := True, routesError := None\<rparr>,
                   inflight := inflight s
                     @ [\<lparr>request_origin = origin, request_village = village\<rparr>]\<rparr>))"

text \<open>
  One event: the state update, the render, and the effect when a dependency changed. A
  settling call leaves the calls in flight and updates the state, whichever call it is.
\<close>

definition dispatch :: "event \<Rightarrow> Orchestrator \<Rightarrow> Orchestrator" where
  "dispatch ev s =
     (case ev of
        FetchSettled k outcome \<Rightarrow>
          if k < length (inflight s)
          then s\<lparr>app := setState ev (app s),
                 inflight := take k (inflight s) @ drop (Suc k) (inflight s)\<rparr>
          else s
      | other \<Rightarrow>
          (let s' = s\<lparr>app := setState ev (app s)\<rparr>
           in if dependenciesChanged ev (app s) (app s') then routeEffect s' else s'))"

fun run :: "event list \<Rightarrow> Orchestrator \<Rightarrow> Orchestrator" where
  "run [] s = s"
| "run (ev # evs) s = run evs (dispatch ev s)"

text \<open>
  The route list that a selection of a direction refers to, and the invariant of the
  specification: a selected route is an index into its list.
\<close>

definition routesOf :: "direction \<Rightarrow> AppState \<Rightarrow> Itinerary list" where
  "routesOf d st = (case d of ToVillage \<Rightarrow> routesToVillage st | FromVillage \<Rightarrow> routesFromVillage st)"

definition selectedRouteValid :: "AppState \<Rightarrow> bool" where
  "selectedRouteValid st =
     (case selectedRoute st of
        None \<Rightarrow> True
      | Some (d, index) \<Rightarrow> index < length (routesOf d st))"

text \<open>Villages and itineraries for the examples.\<close>

definition villageA :: Village where
  "villageA = \<lparr>lat = 34.9886, lng = 32.9012, village_id = ''kakopetria'', object_ref = 1\<rparr>"

definition villageB :: Village where
  "villageB = \<lparr>lat = 34.8469, lng = 32.8099, village_id = ''omodos'', object_ref = 2\<rparr>"

definition sampleItinerary :: "real \<Rightarrow> Itinerary" where
  "sampleItinerary seconds =
     \<lparr>duration = JNum seconds, startTime = JStr [], endTime = JStr [],
      walkDistance = JNum 0, transfers = JNum 0, legs = []\<rparr>"

section \<open>Properties of the geometry codec\<close>

lemma readGroups_run_returns:
  "readGroups_run encoded index shift result = Some (readGroups encoded index shift result)"
proof (induction encoded index shift result rule: readGroups.induct)
  case (1 encoded index shift result)
  show ?case
  proof (cases "charCodeAt encoded index")
    case None
    then show ?thesis by (subst readGroups_run.simps, subst readGroups.simps) simp
  next
    case (Some c)
    show ?thesis
    proof (cases "c - 63 \<ge> 0x20")
      case True
      with Some "1.IH" [OF Some refl refl True] show ?thesis
        by (subst readGroups_run.simps, subst readGroups.simps) (simp add: Let_def)
    next
      case False
      with Some show ?thesis
        by (subst readGroups_run.simps, subst readGroups.simps) (simp add: Let_def)
    qed
  qed
qed

lemma decodeLoop_stop:
  "\<not> index < length encoded \<Longrightarrow> decodeLoop encoded index lat0 lng0 points = points"
  by (subst decodeLoop.simps) simp

lemma decodeLoop_step:
  "index < length encoded \<Longrightarrow> readGroups encoded index 0 0 = (result1, index1) \<Longrightarrow>
   readGroups encoded index1 0 0 = (result2, index2) \<Longrightarrow>
   decodeLoop encoded index lat0 lng0 points =
     decodeLoop encoded index2 (lat0 + unzigzag result1) (lng0 + unzigzag result2)
       (points @ [(real_of_int (lat0 + unzigzag result1) / 100000,
                   real_of_int (lng0 + unzigzag result2) / 100000)])"
  by (subst decodeLoop.simps) (simp add: Let_def)

lemma decodeLoop_run_returns:
  "decodeLoop_run encoded index lat0 lng0 points = Some (decodeLoop encoded index lat0 lng0 points)"
proof (induction encoded index lat0 lng0 points rule: decodeLoop.induct)
  case (1 encoded index lat0 lng0 points)
  show ?case
  proof (cases "index < length encoded")
    case False
    then show ?thesis by (subst decodeLoop_run.simps) (simp add: decodeLoop_stop)
  next
    case True
    obtain result1 index1 where r1: "readGroups encoded index 0 0 = (result1, index1)"
      by (cases "readGroups encoded index 0 0")
    obtain result2 index2 where r2: "readGroups encoded index1 0 0 = (result2, index2)"
      by (cases "readGroups encoded index1 0 0")
    from "1.IH" [OF True r1 [symmetric] refl refl r2 [symmetric] refl refl] True r1 r2
    show ?thesis
      by (subst decodeLoop_run.simps)
         (simp add: readGroups_run_returns decodeLoop_step [OF True r1 r2] Let_def)
  qed
qed

text \<open>Every pass of the outer loop advances \<open>index\<close> by at least two and adds one point.\<close>

lemma decodeLoop_length_le:
  "length (decodeLoop encoded index lat0 lng0 points)
     \<le> length points + (length encoded - index + 1) div 2"
proof (induction encoded index lat0 lng0 points rule: decodeLoop.induct)
  case (1 encoded index lat0 lng0 points)
  show ?case
  proof (cases "index < length encoded")
    case False
    then show ?thesis by (simp add: decodeLoop_stop)
  next
    case True
    obtain result1 index1 where r1: "readGroups encoded index 0 0 = (result1, index1)"
      by (cases "readGroups encoded index 0 0")
    obtain result2 index2 where r2: "readGroups encoded index1 0 0 = (result2, index2)"
      by (cases "readGroups encoded index1 0 0")
    have "index < index1" using readGroups_index [of index encoded 0 0] r1 by simp
    moreover have "index1 < index2" using readGroups_index [of index1 encoded 0 0] r2 by simp
    ultimately have "index + 2 \<le> index2" by simp
    with True have "Suc ((length encoded - index2 + 1) div 2) \<le> (length encoded - index + 1) div 2"
      by arith
    with "1.IH" [OF True r1 [symmetric] refl refl r2 [symmetric] refl refl]
    show ?thesis by (simp add: decodeLoop_step [OF True r1 r2])
  qed
qed

lemma decodeLoop_length_ge:
  "length points + (if index < length encoded then 1 else 0)
     \<le> length (decodeLoop encoded index lat0 lng0 points)"
proof (induction encoded index lat0 lng0 points rule: decodeLoop.induct)
  case (1 encoded index lat0 lng0 points)
  show ?case
  proof (cases "index < length encoded")
    case False
    then show ?thesis by (simp add: decodeLoop_stop)
  next
    case True
    obtain result1 index1 where r1: "readGroups encoded index 0 0 = (result1, index1)"
      by (cases "readGroups encoded index 0 0")
    obtain result2 index2 where r2: "readGroups encoded index1 0 0 = (result2, index2)"
      by (cases "readGroups encoded index1 0 0")
    from "1.IH" [OF True r1 [symmetric] refl refl r2 [symmetric] refl refl] True
    show ?thesis by (simp add: decodeLoop_step [OF True r1 r2] split: if_splits)
  qed
qed

lemma decodePolyline_empty: "decodePolyline [] = []"
  by (simp add: decodePolyline_def decodeLoop_stop)

lemma decodePolyline_nonempty: "encoded \<noteq> [] \<Longrightarrow> decodePolyline encoded \<noteq> []"
  using decodeLoop_length_ge [of "[]" 0 encoded 0 0] by (auto simp: decodePolyline_def)

text \<open>
  C6. \<open>decodePolyline\<close> is total: on every string, also a truncated or malformed one,
  the loops as written return, with a finite list of coordinate pairs (at most one for
  every two code units, rounded up). Nothing in the function can throw: reading past the
  end of the string gives NaN, which ends the inner loop.
\<close>

theorem decodePolyline_total:
  "decodePolyline_run encoded = Some (decodePolyline encoded)
   \<and> length (decodePolyline encoded) \<le> (length encoded + 1) div 2"
  using decodeLoop_length_le [of encoded 0 0 0 "[]"]
  by (simp add: decodePolyline_run_def decodePolyline_def decodeLoop_run_returns)

text \<open>
  C7. \<open>decodePolyline("")\<close> is the empty sequence, and the canonical test vector decodes
  to (38.5, -120.2), (40.7, -120.95), (43.252, -126.453), in that order.
\<close>

theorem decodePolyline_reference:
  "decodePolyline (ascii '''') = []
   \<and> decodePolyline (ascii ''_p~iF~ps|U_ulLnnqC_mqNvxq`@'')
       = [(38.5, -120.2), (40.7, -120.95), (43.252, -126.453)]"
  by code_simp

section \<open>Properties of the demand ledger\<close>

text \<open>
  On a store that is absent, unreadable or an array, \<open>addDemand\<close> raises exactly when
  \<open>setItem\<close> refuses the write and then leaves the storage as it was; otherwise it
  returns the demand with the identifier drawn and the current time, and the stored
  array is the previous one with that record appended.
\<close>

lemma addDemand_on_collection:
  "getDemands ls = Demands demands \<Longrightarrow>
   addDemand ls uuid now demand =
     (if accepts ls (demands @ [newDemand demand uuid now])
      then (Inr (newDemand demand uuid now),
            ls\<lparr>item := Saved (demands @ [newDemand demand uuid now])\<rparr>)
      else (Inl SaveFailed, ls))"
  by (simp add: addDemand_def setItem_def Let_def)

text \<open>
  C8. On a stored text that parses to a value that is not an array (such as \<open>null\<close>),
  \<open>addDemand\<close> raises although persisting would not fail: \<open>demands.push\<close> throws a
  TypeError before \<open>setItem\<close> is reached, and the storage is left as it was.
\<close>

theorem addDemand_on_non_array:
  "addDemand \<lparr>item = NonArray, accepts = unlimited\<rparr> ''id-1'' 1769212800000
      \<lparr>villageId = ''x'', originCity = ''Nicosia'', desiredDate = ''2026-01-24'',
       partySize = 3, email = None\<rparr>
     = (Inl LedgerTypeError, \<lparr>item = NonArray, accepts = unlimited\<rparr>)
   \<and> accepts \<lparr>item = NonArray, accepts = unlimited\<rparr>
        [newDemand \<lparr>villageId = ''x'', originCity = ''Nicosia'', desiredDate = ''2026-01-24'',
           partySize = 3, email = None\<rparr> ''id-1'' 1769212800000]"
  by (simp add: addDemand_def getDemands_def unlimited_def Let_def)

text \<open>
  The cutoff is 30 days of 24 hours before now when the offset of the zone is the same at
  both instants, and is moved by the difference of the two offsets otherwise.
\<close>

lemma thirtyDaysAgo_offsets:
  "thirtyDaysAgo tz now
     = now - 30 * 86400000
       + (offsetAtUtc tz now - offsetAtLocal tz (now + offsetAtUtc tz now - 30 * 86400000))"
  by (simp add: thirtyDaysAgo_def msPerDay_def Let_def)

lemma thirtyDaysAgo_fixed_offset:
  "offsetAtLocal tz (now + offsetAtUtc tz now - 30 * 86400000) = offsetAtUtc tz now \<Longrightarrow>
   thirtyDaysAgo tz now = now - 30 * 86400000"
  by (simp add: thirtyDaysAgo_offsets)

text \<open>
  With such a zone, and with no record stamped after now, \<open>getDemandCountForVillage\<close> is
  the count of the specification.
\<close>

lemma getDemandCountForVillage_agrees:
  assumes "offsetAtLocal tz (now + offsetAtUtc tz now - 30 * 86400000) = offsetAtUtc tz now"
    and "getDemands ls = Demands demands"
    and "\<forall>d \<in> set demands. \<forall>t. createdAt d = Some t \<longrightarrow> t \<le> now"
  shows "getDemandCountForVillage tz ls now v = Inr (countFor_spec demands now v)"
proof -
  have "filter (\<lambda>d. villageId d = v \<and> laterThan (createdAt d) (thirtyDaysAgo tz now)) demands
      = filter (\<lambda>d. villageId d = v \<and> inTrailingWindow 30 now (createdAt d)) demands"
    using assms(3)
    by (intro filter_cong refl)
       (auto simp: laterThan_def inTrailingWindow_def thirtyDaysAgo_fixed_offset [OF assms(1)]
          split: option.splits)
  then show ?thesis
    by (simp add: getDemandCountForVillage_def countFor_spec_def assms(2))
qed


text \<open>On every identifier that names no member of \<open>Object.prototype\<close> the two views agree.\<close>

lemma proto_is_inherited: "''__proto__'' \<in> set objectPrototypeProperties"
  by (simp add: objectPrototypeProperties_def)

lemma countStep_at:
  "countAt acc v = Count n \<Longrightarrow> v \<notin> set objectPrototypeProperties \<Longrightarrow>
   countAt (countStep acc d) v = Count (if villageId d = v then n + 1 else n)"
  using proto_is_inherited
  by (auto simp: countStep_def countAt_def Let_def split: option.splits count_value.splits)

lemma foldl_countStep_at:
  "countAt acc v = Count n \<Longrightarrow> v \<notin> set objectPrototypeProperties \<Longrightarrow>
   countAt (foldl countStep acc ds) v = Count (n + length (filter (\<lambda>d. villageId d = v) ds))"
proof (induction ds arbitrary: acc n)
  case Nil
  then show ?case by simp
next
  case (Cons d ds)
  from countStep_at [OF Cons.prems, of d]
  have "countAt (countStep acc d) v = Count (if villageId d = v then n + 1 else n)" .
  from Cons.IH [OF this Cons.prems(2)] show ?case by simp
qed

lemma getAllDemandCounts_agrees:
  assumes "v \<notin> set objectPrototypeProperties"
  shows "map_sum id (\<lambda>counts. countAt counts v) (getAllDemandCounts tz ls now)
     = map_sum id Count (getDemandCountForVillage tz ls now v)"
proof (cases "getDemands ls")
  case NotArray
  then show ?thesis
    by (simp add: getAllDemandCounts_def getDemandCountForVillage_def)
next
  case (Demands demands)
  have "countAt Map.empty v = Count 0" by (simp add: countAt_def)
  from foldl_countStep_at [OF this assms] Demands show ?thesis
    by (simp add: getAllDemandCounts_def getDemandCountForVillage_def conj_commute)
qed

text \<open>
  C10. The two aggregate views disagree on a village identifier that names a member of
  \<open>Object.prototype\<close>: with one record for \<open>constructor\<close> in the window,
  \<open>getDemandCountForVillage\<close> is 1 while the mapping of \<open>getAllDemandCounts\<close> holds a
  string at that key.
\<close>

theorem getAllDemandCounts_prototype_key:
  "getDemandCountForVillage utc
      \<lparr>item = Saved [newDemand \<lparr>villageId = ''constructor'', originCity = ''Nicosia'',
          desiredDate = ''2026-01-24'', partySize = 3, email = None\<rparr> ''id-1'' 1769212800000],
       accepts = unlimited\<rparr> 1769212800001 ''constructor'' = Inr 1
   \<and> map_sum id (\<lambda>counts. countAt counts ''constructor'')
       (getAllDemandCounts utc
         \<lparr>item = Saved [newDemand \<lparr>villageId = ''constructor'', originCity = ''Nicosia'',
             desiredDate = ''2026-01-24'', partySize = 3, email = None\<rparr> ''id-1'' 1769212800000],
          accepts = unlimited\<rparr> 1769212800001) = Inr Text"
  by (simp add: getDemandCountForVillage_def getAllDemandCounts_def getDemands_def
        newDemand_def laterThan_def thirtyDaysAgo_def utc_def msPerDay_def countStep_def
        countAt_def objectPrototypeProperties_def Let_def)


section \<open>Properties of the routing client\<close>

lemma legPolyline_cases:
  "legPolyline positive leg = Inr line \<Longrightarrow>
   (case optionalProp (ownProp leg ''legGeometry'') ''points'' of
      Some (JStr encoded) \<Rightarrow> line = decodePolyline encoded
    | other \<Rightarrow> line = [])"
  by (auto simp: legPolyline_def decodePolyline_empty
        split: option.splits json.splits if_splits)

lemma parseLeg_polyline_eq:
  "parseLeg positive raw = Inr leg \<Longrightarrow> legPolyline positive raw = Inr (polyline leg)"
  by (auto simp: parseLeg_def split: sum.splits)

text \<open>
  C5, amended. The polyline of a mapped leg is empty when the raw leg carries no geometry
  string or an empty one, and is otherwise the decoding of that string, which has at
  least one point and at most one for every two code units, rounded up. The mapping
  checks no number of points, and a polyline of exactly one point occurs.
\<close>

theorem parseLeg_polyline:
  "parseLeg positive raw = Inr leg \<Longrightarrow>
   (case optionalProp (ownProp raw ''legGeometry'') ''points'' of
      Some (JStr encoded) \<Rightarrow>
        polyline leg = decodePolyline encoded
        \<and> (encoded = [] \<longrightarrow> polyline leg = [])
        \<and> (encoded \<noteq> [] \<longrightarrow>
              1 \<le> length (polyline leg) \<and> length (polyline leg) \<le> (length encoded + 1) div 2)
    | other \<Rightarrow> polyline leg = [])"
proof -
  assume "parseLeg positive raw = Inr leg"
  from legPolyline_cases [OF parseLeg_polyline_eq [OF this]]
  show ?thesis
    using decodeLoop_length_le [of _ 0 0 0 "[]"] decodePolyline_nonempty
    by (auto simp: decodePolyline_def decodeLoop_stop Suc_le_eq
          split: option.splits json.splits)
qed

text \<open>
  C5, as stated, fails: the geometry string \<open>??\<close> encodes the single point (0, 0), and
  the polyline assigned to the leg has exactly that one point.
\<close>

theorem parseLeg_single_point:
  "map_sum id polyline
     (parseLeg noCoercion
        (JObj [(''mode'', JStr (ascii ''BUS'')),
               (''legGeometry'', JObj [(''points'', JStr (ascii ''??''))])]))
   = Inr [(0, 0)]"
  by code_simp

theorem parseLeg_polyline_witness:
  "parseLeg noCoercion
        (JObj [(''mode'', JStr (ascii ''WALK'')),
               (''legGeometry'', JObj [(''points'', JStr (ascii ''_p~iF~ps|U_ulLnnqC''))])])
     = Inr \<lparr>mode = WALK,
        leg_from = \<lparr>place_name = JStr (ascii ''Unknown''), place_lat = JNum 0,
                     place_lng = JNum 0, stopId = None\<rparr>,
        leg_to = \<lparr>place_name = JStr (ascii ''Unknown''), place_lat = JNum 0,
                   place_lng = JNum 0, stopId = None\<rparr>,
        departureTime = JStr [], arrivalTime = JStr [], leg_duration = JNum 0,
        distance = None, routeShortName = None, routeLongName = None, agencyName = None,
        headsign = None, polyline = [(38.5, -120.2), (40.7, -120.95)]\<rparr>
   \<and> decodePolyline (ascii ''_p~iF~ps|U_ulLnnqC'') = [(38.5, -120.2), (40.7, -120.95)]"
proof -
  have p: "parseLeg noCoercion
        (JObj [(''mode'', JStr (ascii ''WALK'')),
               (''legGeometry'', JObj [(''points'', JStr (ascii ''_p~iF~ps|U_ulLnnqC''))])])
     = Inr \<lparr>mode = WALK,
        leg_from = \<lparr>place_name = JStr (ascii ''Unknown''), place_lat = JNum 0,
                     place_lng = JNum 0, stopId = None\<rparr>,
        leg_to = \<lparr>place_name = JStr (ascii ''Unknown''), place_lat = JNum 0,
                   place_lng = JNum 0, stopId = None\<rparr>,
        departureTime = JStr [], arrivalTime = JStr [], leg_duration = JNum 0,
        distance = None, routeShortName = None, routeLongName = None, agencyName = None,
        headsign = None, polyline = [(38.5, -120.2), (40.7, -120.95)]\<rparr>"
    by code_simp
  from parseLeg_polyline [OF p] show ?thesis using p by simp
qed

text \<open>
  The mapped \<open>transfers\<close> is \<open>rawItinerary.transfers || derived\<close>: the raw value when
  it is truthy, the derived count otherwise, also when the engine supplies 0.
\<close>

lemma parseItinerary_transfers:
  "parseItinerary positive raw = Inr itinerary \<Longrightarrow>
   transfers itinerary =
     (if truthy (ownProp raw ''transfers'') then the (ownProp raw ''transfers'')
      else JNum (real_of_int (derivedTransfers (legs itinerary))))"
  by (auto simp: parseItinerary_def orElse_def split: sum.splits option.splits json.splits)

text \<open>
  C4. An itinerary of two transit legs for which the engine supplies \<open>transfers: 0\<close>
  (the vehicle runs through) is mapped to \<open>transfers = 1\<close>: the supplied 0 is falsy and
  the derived count replaces it.
\<close>

theorem parseItinerary_zero_transfers:
  "map_sum id (\<lambda>itinerary. (transfers itinerary, map mode (legs itinerary)))
     (parseItinerary noCoercion
        (JObj [(''legs'', JArr [JObj [(''mode'', JStr (ascii ''BUS''))],
                                 JObj [(''mode'', JStr (ascii ''BUS''))]]),
               (''transfers'', JNum 0)]))
   = Inr (JNum 1, [TRANSIT, TRANSIT])"
  by code_simp

text \<open>A callback that throws on one element makes the whole mapping throw.\<close>

lemma mapItems_throws:
  "x \<in> set xs \<Longrightarrow> f x = Inl e \<Longrightarrow> \<exists>e'. mapItems f xs = Inl e'"
  by (induction xs) (auto split: sum.splits)

lemma parseItinerary_throws:
  "raw = JNull \<or> (\<forall>ls. ownProp raw ''legs'' \<noteq> Some (JArr ls))
     \<or> (\<exists>ls. ownProp raw ''legs'' = Some (JArr ls) \<and> JNull \<in> set ls) \<Longrightarrow>
   \<exists>e. parseItinerary positive raw = Inl e"
proof (elim disjE exE conjE)
  assume "raw = JNull"
  then show ?thesis by (simp add: parseItinerary_def)
next
  assume "\<forall>ls. ownProp raw ''legs'' \<noteq> Some (JArr ls)"
  then show ?thesis
    by (cases raw) (auto simp: parseItinerary_def split: option.splits json.splits)
next
  fix ls assume l: "ownProp raw ''legs'' = Some (JArr ls)" and n: "JNull \<in> set ls"
  have "parseLeg positive JNull = Inl TypeError" by (simp add: parseLeg_def)
  from mapItems_throws [where f = "parseLeg positive", OF n this] obtain e' where "mapItems (parseLeg positive) ls = Inl e'" ..
  with l show ?thesis
    by (cases raw) (auto simp: parseItinerary_def)
qed

text \<open>
  C3, amended. For every origin, destination and departure time and every engine
  response \<open>planJourney\<close> returns and does not throw. It returns the empty sequence on
  a network failure, on status 404 and on any other non-success status, on a body that
  is not JSON, on a success response whose \<open>itineraries\<close> field is missing or falsy,
  and whenever the mapping of the body throws: when \<open>itineraries\<close> is not an array,
  when an itinerary is null or has no array of legs, when a leg is null. A body of
  another wrong shape, on which nothing throws, is mapped with the defaults.
\<close>

theorem planJourney_contract:
  "(\<exists>itineraries. planJourney positive engine origin destination time = Inr itineraries)
   \<and> (engine origin destination time = FetchRejected \<longrightarrow>
        planJourney positive engine origin destination time = Inr [])
   \<and> (engine origin destination time = Responded status body
        \<and> \<not> (200 \<le> status \<and> status \<le> 299) \<longrightarrow>
        planJourney positive engine origin destination time = Inr [])
   \<and> (engine origin destination time = Responded status NotJson \<longrightarrow>
        planJourney positive engine origin destination time = Inr [])
   \<and> (engine origin destination time = Responded status (Json data)
        \<and> \<not> truthy (ownProp data ''itineraries'') \<longrightarrow>
        planJourney positive engine origin destination time = Inr [])
   \<and> (engine origin destination time = Responded status (Json data)
        \<and> ownProp data ''itineraries'' = Some found \<and> (\<forall>items. found \<noteq> JArr items) \<longrightarrow>
        planJourney positive engine origin destination time = Inr [])
   \<and> (engine origin destination time = Responded status (Json data)
        \<and> ownProp data ''itineraries'' = Some (JArr items) \<and> raw \<in> set items
        \<and> (raw = JNull \<or> (\<forall>ls. ownProp raw ''legs'' \<noteq> Some (JArr ls))
             \<or> (\<exists>ls. ownProp raw ''legs'' = Some (JArr ls) \<and> JNull \<in> set ls)) \<longrightarrow>
        planJourney positive engine origin destination time = Inr [])
   \<and> (tryPlan positive (engine origin destination time) = Inl error \<longrightarrow>
        planJourney positive engine origin destination time = Inr [])
   \<and> (tryPlan positive (engine origin destination time) = Inr mapped \<longrightarrow>
        planJourney positive engine origin destination time = Inr mapped)"
proof -
  have caught: "\<And>e. catchBlock e = Inr []"
    by (simp add: catchBlock_def split: js_error.splits)
  have c1: "\<exists>itineraries. planJourney positive engine origin destination time = Inr itineraries"
    by (simp add: planJourney_def caught split: sum.splits)
  have c2: "engine origin destination time = FetchRejected \<longrightarrow>
        planJourney positive engine origin destination time = Inr []"
    by (simp add: planJourney_def tryPlan_def caught)
  have c3: "engine origin destination time = Responded status body
        \<and> \<not> (200 \<le> status \<and> status \<le> 299) \<longrightarrow>
        planJourney positive engine origin destination time = Inr []"
    by (auto simp: planJourney_def tryPlan_def caught)
  have c4: "engine origin destination time = Responded status NotJson \<longrightarrow>
        planJourney positive engine origin destination time = Inr []"
    by (auto simp: planJourney_def tryPlan_def caught)
  have c5: "engine origin destination time = Responded status (Json data)
        \<and> \<not> truthy (ownProp data ''itineraries'') \<longrightarrow>
        planJourney positive engine origin destination time = Inr []"
    by (cases data) (auto simp: planJourney_def tryPlan_def caught)
  have c6: "engine origin destination time = Responded status (Json data)
        \<and> ownProp data ''itineraries'' = Some found \<and> (\<forall>items. found \<noteq> JArr items) \<longrightarrow>
        planJourney positive engine origin destination time = Inr []"
    by (cases data; cases found) (auto simp: planJourney_def tryPlan_def caught)
  have c7: "engine origin destination time = Responded status (Json data)
        \<and> ownProp data ''itineraries'' = Some (JArr items) \<and> raw \<in> set items
        \<and> (raw = JNull \<or> (\<forall>ls. ownProp raw ''legs'' \<noteq> Some (JArr ls))
             \<or> (\<exists>ls. ownProp raw ''legs'' = Some (JArr ls) \<and> JNull \<in> set ls)) \<longrightarrow>
        planJourney positive engine origin destination time = Inr []"
  proof (intro impI, elim conjE)
    assume r: "engine origin destination time = Responded status (Json data)"
      and i: "ownProp data ''itineraries'' = Some (JArr items)" and m: "raw \<in> set items"
      and bad: "raw = JNull \<or> (\<forall>ls. ownProp raw ''legs'' \<noteq> Some (JArr ls))
             \<or> (\<exists>ls. ownProp raw ''legs'' = Some (JArr ls) \<and> JNull \<in> set ls)"
    from parseItinerary_throws [OF bad] obtain e where "parseItinerary positive raw = Inl e" ..
    from mapItems_throws [where f = "parseItinerary positive", OF m this]
    obtain e' where t: "mapItems (parseItinerary positive) items = Inl e'" ..
    from r i t show "planJourney positive engine origin destination time = Inr []"
      by (cases data) (auto simp: planJourney_def tryPlan_def caught)
  qed
  have c8: "tryPlan positive (engine origin destination time) = Inl error \<longrightarrow>
        planJourney positive engine origin destination time = Inr []"
    by (simp add: planJourney_def caught)
  have c9: "tryPlan positive (engine origin destination time) = Inr mapped \<longrightarrow>
        planJourney positive engine origin destination time = Inr mapped"
    by (simp add: planJourney_def)
  from c1 c2 c3 c4 c5 c6 c7 c8 c9 show ?thesis by blast
qed

text \<open>
  C3, as stated, fails on a malformed response on which nothing throws: for the body
  \<open>{"itineraries": [{"legs": [5]}]}\<close> the result is not empty; it is one itinerary
  with one leg made of the defaults.
\<close>

theorem planJourney_wrong_shape:
  "map_sum id (map (\<lambda>itinerary. map mode (legs itinerary)))
     (planJourney noCoercion engineNumberLeg \<lparr>lat = 35.1856, lng = 33.3823\<rparr>
        \<lparr>lat = 34.9229, lng = 33.6233\<rparr> 1769212800000)
   = Inr [[TRANSIT]]"
  by code_simp

theorem planJourney_contract_witness:
  "planJourney noCoercion engineDown \<lparr>lat = 35.1856, lng = 33.3823\<rparr>
     \<lparr>lat = 34.9229, lng = 33.6233\<rparr> 1769212800000 = Inr []
   \<and> planJourney noCoercion engineNoRoute \<lparr>lat = 35.1856, lng = 33.3823\<rparr>
     \<lparr>lat = 34.9229, lng = 33.6233\<rparr> 1769212800000 = Inr []
   \<and> planJourney noCoercion engineGarbled \<lparr>lat = 35.1856, lng = 33.3823\<rparr>
     \<lparr>lat = 34.9229, lng = 33.6233\<rparr> 1769212800000 = Inr []
   \<and> planJourney noCoercion engineNoField \<lparr>lat = 35.1856, lng = 33.3823\<rparr>
     \<lparr>lat = 34.9229, lng = 33.6233\<rparr> 1769212800000 = Inr []
   \<and> planJourney noCoercion engineNotArray \<lparr>lat = 35.1856, lng = 33.3823\<rparr>
     \<lparr>lat = 34.9229, lng = 33.6233\<rparr> 1769212800000 = Inr []
   \<and> tryPlan noCoercion (engineBadLegs \<lparr>lat = 35.1856, lng = 33.3823\<rparr>
     \<lparr>lat = 34.9229, lng = 33.6233\<rparr> 1769212800000) = Inl TypeError
   \<and> planJourney noCoercion engineBadLegs \<lparr>lat = 35.1856, lng = 33.3823\<rparr>
     \<lparr>lat = 34.9229, lng = 33.6233\<rparr> 1769212800000 = Inr []
   \<and> planJourney noCoercion engineNullLeg \<lparr>lat = 35.1856, lng = 33.3823\<rparr>
     \<lparr>lat = 34.9229, lng = 33.6233\<rparr> 1769212800000 = Inr []
   \<and> planJourney noCoercion engineNumberLeg \<lparr>lat = 35.1856, lng = 33.3823\<rparr>
     \<lparr>lat = 34.9229, lng = 33.6233\<rparr> 1769212800000
       = tryPlan noCoercion (engineNumberLeg \<lparr>lat = 35.1856, lng = 33.3823\<rparr>
           \<lparr>lat = 34.9229, lng = 33.6233\<rparr> 1769212800000)"
  using
    planJourney_contract [where positive = noCoercion and engine = engineDown
      and origin = "\<lparr>lat = 35.1856, lng = 33.3823\<rparr>"
      and destination = "\<lparr>lat = 34.9229, lng = 33.6233\<rparr>" and time = 1769212800000]
    planJourney_contract [where positive = noCoercion and engine = engineNoRoute
      and origin = "\<lparr>lat = 35.1856, lng = 33.3823\<rparr>"
      and destination = "\<lparr>lat = 34.9229, lng = 33.6233\<rparr>" and time = 1769212800000
      and status = 404 and body = NotJson]
    planJourney_contract [where positive = noCoercion and engine = engineGarbled
      and origin = "\<lparr>lat = 35.1856, lng = 33.3823\<rparr>"
      and destination = "\<lparr>lat = 34.9229, lng = 33.6233\<rparr>" and time = 1769212800000
      and status = 200]
    planJourney_contract [where positive = noCoercion and engine = engineNoField
      and origin = "\<lparr>lat = 35.1856, lng = 33.3823\<rparr>"
      and destination = "\<lparr>lat = 34.9229, lng = 33.6233\<rparr>" and time = 1769212800000
      and status = 200 and data = "JObj []"]
    planJourney_contract [where positive = noCoercion and engine = engineNotArray
      and origin = "\<lparr>lat = 35.1856, lng = 33.3823\<rparr>"
      and destination = "\<lparr>lat = 34.9229, lng = 33.6233\<rparr>" and time = 1769212800000
      and status = 200 and data = "JObj [(''itineraries'', JNum 5)]" and found = "JNum 5"]
    planJourney_contract [where positive = noCoercion and engine = engineBadLegs
      and origin = "\<lparr>lat = 35.1856, lng = 33.3823\<rparr>"
      and destination = "\<lparr>lat = 34.9229, lng = 33.6233\<rparr>" and time = 1769212800000
      and status = 200 and data = "JObj [(''itineraries'', JArr [JObj []])]"
      and items = "[JObj []]" and raw = "JObj []" and error = TypeError]
    planJourney_contract [where positive = noCoercion and engine = engineNullLeg
      and origin = "\<lparr>lat = 35.1856, lng = 33.3823\<rparr>"
      and destination = "\<lparr>lat = 34.9229, lng = 33.6233\<rparr>" and time = 1769212800000
      and status = 200
      and data = "JObj [(''itineraries'', JArr [JObj [(''legs'', JArr [JNull])]])]"
      and items = "[JObj [(''legs'', JArr [JNull])]]"
      and raw = "JObj [(''legs'', JArr [JNull])]"]
    planJourney_contract [where positive = noCoercion and engine = engineNumberLeg
      and origin = "\<lparr>lat = 35.1856, lng = 33.3823\<rparr>"
      and destination = "\<lparr>lat = 34.9229, lng = 33.6233\<rparr>" and time = 1769212800000
      and mapped = "[\<lparr>duration = JNum 0, startTime = JStr [], endTime = JStr [],
         walkDistance = JNum 0, transfers = JNum 0,
         legs = [\<lparr>mode = TRANSIT, leg_from = parsePlace None, leg_to = parsePlace None,
           departureTime = JStr [], arrivalTime = JStr [], leg_duration = JNum 0,
           distance = None, routeShortName = None, routeLongName = None,
           agencyName = None, headsign = None, polyline = []\<rparr>]\<rparr>]"]
  by (simp add: engineDown_def engineNoRoute_def engineGarbled_def engineNoField_def
        engineBadLegs_def engineNotArray_def engineNullLeg_def engineNumberLeg_def
        tryPlan_def parseItinerary_def parseLeg_def legPolyline_def derivedTransfers_def
        orElse_def planJourney_def catchBlock_def)


section \<open>Properties of the journey orchestrator\<close>

lemma originOf_known:
  "originOf st = Some origin \<Longrightarrow>
   \<not> (userLocation st = None \<and> (selectedCity st = None \<or> selectedCity st = Some []))"
  by (auto simp: originOf_def split: option.splits)

lemma originOf_same:
  "userLocation st' = userLocation st \<Longrightarrow> selectedCity st' = selectedCity st \<Longrightarrow>
   originOf st' = originOf st"
  by (simp add: originOf_def cong: option.case_cong)

lemma originOf_setSelectedVillage:
  "originOf (setState (SetSelectedVillage village) st) = originOf st"
  by (rule originOf_same) simp_all

lemma select_village_fetches:
  assumes "originOf (app s) = Some origin" and "selectedVillage (app s) \<noteq> Some village"
  shows "dispatch (SetSelectedVillage (Some village)) s
     = s\<lparr>app := (app s)\<lparr>selectedVillage := Some village, sidebarOpen := True,
             selectedRoute := None, routesLoading := True, routesError := None\<rparr>,
          inflight := inflight s @ [\<lparr>request_origin = origin, request_village = village\<rparr>]\<rparr>"
proof -
  have o: "originOf (setState (SetSelectedVillage (Some village)) (app s)) = Some origin"
    using assms(1) originOf_setSelectedVillage [of "Some village" "app s"] by (simp del: setState.simps)
  have d: "dependenciesChanged (SetSelectedVillage (Some village)) (app s)
             (setState (SetSelectedVillage (Some village)) (app s))"
    using assms(2) by (auto simp: dependenciesChanged_def)
  have o': "originOf (app s\<lparr>selectedVillage := Some village, sidebarOpen := True,
             selectedRoute := None\<rparr>) = Some origin"
    using o by simp
  from originOf_known [OF o'] o' d show ?thesis
    by (auto simp: dispatch_def routeEffect_def Let_def)
qed

text \<open>
  C1, amended. With the origin known and no call in flight, selecting village A and then
  village B issues one call for each, and every settling call writes its route lists
  into the state: the final state has village B selected and holds the lists of the call
  that settles last. When B's response arrives after A's, these are B's lists only; when
  A's response arrives last, its lists replace B's, with village B still selected.
\<close>

theorem last_settled_fetch_wins:
  assumes "originOf (app s) = Some origin" and "inflight s = []"
    and "selectedVillage (app s) \<noteq> Some a" and "a \<noteq> b"
  shows "inflight (run [SetSelectedVillage (Some a), SetSelectedVillage (Some b)] s)
           = [\<lparr>request_origin = origin, request_village = a\<rparr>,
              \<lparr>request_origin = origin, request_village = b\<rparr>]
     \<and> selectedVillage (app (run [SetSelectedVillage (Some a), SetSelectedVillage (Some b),
            FetchSettled 0 (Inr (toA, fromA)), FetchSettled 0 (Inr (toB, fromB))] s)) = Some b
     \<and> routesToVillage (app (run [SetSelectedVillage (Some a), SetSelectedVillage (Some b),
            FetchSettled 0 (Inr (toA, fromA)), FetchSettled 0 (Inr (toB, fromB))] s)) = toB
     \<and> routesFromVillage (app (run [SetSelectedVillage (Some a), SetSelectedVillage (Some b),
            FetchSettled 0 (Inr (toA, fromA)), FetchSettled 0 (Inr (toB, fromB))] s)) = fromB
     \<and> selectedVillage (app (run [SetSelectedVillage (Some a), SetSelectedVillage (Some b),
            FetchSettled 1 (Inr (toB, fromB)), FetchSettled 0 (Inr (toA, fromA))] s)) = Some b
     \<and> routesToVillage (app (run [SetSelectedVillage (Some a), SetSelectedVillage (Some b),
            FetchSettled 1 (Inr (toB, fromB)), FetchSettled 0 (Inr (toA, fromA))] s)) = toA
     \<and> routesFromVillage (app (run [SetSelectedVillage (Some a), SetSelectedVillage (Some b),
            FetchSettled 1 (Inr (toB, fromB)), FetchSettled 0 (Inr (toA, fromA))] s)) = fromA
     \<and> inflight (run [SetSelectedVillage (Some a), SetSelectedVillage (Some b),
            FetchSettled 1 (Inr (toB, fromB)), FetchSettled 0 (Inr (toA, fromA))] s) = []"
proof -
  let ?s1 = "dispatch (SetSelectedVillage (Some a)) s"
  have s1: "?s1 = s\<lparr>app := (app s)\<lparr>selectedVillage := Some a, sidebarOpen := True,
             selectedRoute := None, routesLoading := True, routesError := None\<rparr>,
          inflight := inflight s @ [\<lparr>request_origin = origin, request_village = a\<rparr>]\<rparr>"
    by (rule select_village_fetches [OF assms(1) assms(3)])
  have o1: "originOf (app ?s1) = Some origin"
    using assms(1) originOf_same [of "app ?s1" "app s"] by (simp add: s1)
  have v1: "selectedVillage (app ?s1) \<noteq> Some b"
    using assms(4) by (simp add: s1)
  let ?s2 = "dispatch (SetSelectedVillage (Some b)) ?s1"
  have s2: "?s2 = ?s1\<lparr>app := (app ?s1)\<lparr>selectedVillage := Some b, sidebarOpen := True,
             selectedRoute := None, routesLoading := True, routesError := None\<rparr>,
          inflight := inflight ?s1 @ [\<lparr>request_origin = origin, request_village = b\<rparr>]\<rparr>"
    by (rule select_village_fetches [OF o1 v1])
  have i2: "inflight ?s2 = [\<lparr>request_origin = origin, request_village = a\<rparr>,
              \<lparr>request_origin = origin, request_village = b\<rparr>]"
    by (subst s2, subst s1) (simp add: assms(2))
  have v2: "selectedVillage (app ?s2) = Some b"
    by (subst s2) simp
  show ?thesis
    using i2 v2 by (simp add: dispatch_def)
qed

text \<open>
  C1, as stated for every order of arrival, fails: when the response for village A
  arrives after the response for village B, the final state shows village B selected
  with the route lists fetched for village A.
\<close>

theorem stale_result_overwrites:
  "selectedVillage (app (run [GeolocationSuccess \<lparr>lat = 35.1856, lng = 33.3823\<rparr>,
        SetSelectedVillage (Some villageA), SetSelectedVillage (Some villageB),
        FetchSettled 1 (Inr ([sampleItinerary 200], [sampleItinerary 201])),
        FetchSettled 0 (Inr ([sampleItinerary 100], [sampleItinerary 101]))] initial))
     = Some villageB
   \<and> routesToVillage (app (run [GeolocationSuccess \<lparr>lat = 35.1856, lng = 33.3823\<rparr>,
        SetSelectedVillage (Some villageA), SetSelectedVillage (Some villageB),
        FetchSettled 1 (Inr ([sampleItinerary 200], [sampleItinerary 201])),
        FetchSettled 0 (Inr ([sampleItinerary 100], [sampleItinerary 101]))] initial))
     = [sampleItinerary 100]
   \<and> routesFromVillage (app (run [GeolocationSuccess \<lparr>lat = 35.1856, lng = 33.3823\<rparr>,
        SetSelectedVillage (Some villageA), SetSelectedVillage (Some villageB),
        FetchSettled 1 (Inr ([sampleItinerary 200], [sampleItinerary 201])),
        FetchSettled 0 (Inr ([sampleItinerary 100], [sampleItinerary 101]))] initial))
     = [sampleItinerary 101]
   \<and> map request_village (inflight (run [GeolocationSuccess \<lparr>lat = 35.1856, lng = 33.3823\<rparr>,
        SetSelectedVillage (Some villageA), SetSelectedVillage (Some villageB)] initial))
     = [villageA, villageB]
   \<and> sampleItinerary 100 \<noteq> sampleItinerary 200"
  by (simp add: dispatch_def routeEffect_def dependenciesChanged_def originOf_def initial_def
        initialState_def villageA_def villageB_def sampleItinerary_def Let_def)


theorem last_settled_fetch_wins_witness:
  "originOf (app (dispatch (GeolocationSuccess \<lparr>lat = 35.1856, lng = 33.3823\<rparr>) initial))
     = Some (Coordinates \<lparr>lat = 35.1856, lng = 33.3823\<rparr>)
   \<and> inflight (dispatch (GeolocationSuccess \<lparr>lat = 35.1856, lng = 33.3823\<rparr>) initial) = []
   \<and> selectedVillage (app (dispatch (GeolocationSuccess \<lparr>lat = 35.1856, lng = 33.3823\<rparr>) initial))
       \<noteq> Some villageA
   \<and> villageA \<noteq> villageB
   \<and> routesToVillage (app (run [SetSelectedVillage (Some villageA),
         SetSelectedVillage (Some villageB),
         FetchSettled 0 (Inr ([sampleItinerary 100], [sampleItinerary 101])),
         FetchSettled 0 (Inr ([sampleItinerary 200], [sampleItinerary 201]))]
        (dispatch (GeolocationSuccess \<lparr>lat = 35.1856, lng = 33.3823\<rparr>) initial)))
       = [sampleItinerary 200]
   \<and> routesFromVillage (app (run [SetSelectedVillage (Some villageA),
         SetSelectedVillage (Some villageB),
         FetchSettled 0 (Inr ([sampleItinerary 100], [sampleItinerary 101])),
         FetchSettled 0 (Inr ([sampleItinerary 200], [sampleItinerary 201]))]
        (dispatch (GeolocationSuccess \<lparr>lat = 35.1856, lng = 33.3823\<rparr>) initial)))
       = [sampleItinerary 201]
   \<and> selectedVillage (app (run [SetSelectedVillage (Some villageA),
         SetSelectedVillage (Some villageB),
         FetchSettled 1 (Inr ([sampleItinerary 200], [sampleItinerary 201])),
         FetchSettled 0 (Inr ([sampleItinerary 100], [sampleItinerary 101]))]
        (dispatch (GeolocationSuccess \<lparr>lat = 35.1856, lng = 33.3823\<rparr>) initial)))
       = Some villageB
   \<and> routesToVillage (app (run [SetSelectedVillage (Some villageA),
         SetSelectedVillage (Some villageB),
         FetchSettled 1 (Inr ([sampleItinerary 200], [sampleItinerary 201])),
         FetchSettled 0 (Inr ([sampleItinerary 100], [sampleItinerary 101]))]
        (dispatch (GeolocationSuccess \<lparr>lat = 35.1856, lng = 33.3823\<rparr>) initial)))
       = [sampleItinerary 100]"
proof -
  let ?s = "dispatch (GeolocationSuccess \<lparr>lat = 35.1856, lng = 33.3823\<rparr>) initial"
  have h1: "originOf (app ?s) = Some (Coordinates \<lparr>lat = 35.1856, lng = 33.3823\<rparr>)"
    by (simp add: dispatch_def routeEffect_def dependenciesChanged_def initial_def initialState_def
          originOf_def)
  have h2: "inflight ?s = []"
    by (simp add: dispatch_def routeEffect_def dependenciesChanged_def initial_def initialState_def)
  have h3: "selectedVillage (app ?s) \<noteq> Some villageA"
    by (simp add: dispatch_def routeEffect_def dependenciesChanged_def initial_def initialState_def)
  have h4: "villageA \<noteq> villageB"
    by (simp add: villageA_def villageB_def)
  from last_settled_fetch_wins [OF h1 h2 h3 h4, of "[sampleItinerary 100]" "[sampleItinerary 101]"
      "[sampleItinerary 200]" "[sampleItinerary 201]"] h1 h2 h3 h4
  show ?thesis by simp
qed

text \<open>
  C2. A change of origin leaves \<open>selectedRoute\<close> as it is, where a selection of a
  village clears it. With the second of two routes selected, the fallback city is
  changed in the city selector: the routes are fetched again and \<open>selectedRoute\<close> is
  still (to, 1); when the new list arrives with one route, the state holds an index
  outside its list. The selection of another village in the same state sets
  \<open>selectedRoute\<close> to none.
\<close>

theorem selectedRoute_survives_origin_change:
  "selectedRoute (app (run [GeolocationError ''denied'', SetSelectedVillage (Some villageA),
        SetSelectedCity (Some ''Nicosia''),
        FetchSettled 0 (Inr ([sampleItinerary 100, sampleItinerary 200], [])),
        SetSelectedRoute (Some (ToVillage, 1)),
        SetSelectedCity (Some ''Limassol'')] initial)) = Some (ToVillage, 1)
   \<and> inflight (run [GeolocationError ''denied'', SetSelectedVillage (Some villageA),
        SetSelectedCity (Some ''Nicosia''),
        FetchSettled 0 (Inr ([sampleItinerary 100, sampleItinerary 200], [])),
        SetSelectedRoute (Some (ToVillage, 1)),
        SetSelectedCity (Some ''Limassol'')] initial)
       = [\<lparr>request_origin = Coordinates \<lparr>lat = 34.6823, lng = 33.0464\<rparr>,
           request_village = villageA\<rparr>]
   \<and> selectedRoute (app (run [GeolocationError ''denied'', SetSelectedVillage (Some villageA),
        SetSelectedCity (Some ''Nicosia''),
        FetchSettled 0 (Inr ([sampleItinerary 100, sampleItinerary 200], [])),
        SetSelectedRoute (Some (ToVillage, 1)),
        SetSelectedCity (Some ''Limassol''),
        FetchSettled 0 (Inr ([sampleItinerary 300], []))] initial)) = Some (ToVillage, 1)
   \<and> routesToVillage (app (run [GeolocationError ''denied'', SetSelectedVillage (Some villageA),
        SetSelectedCity (Some ''Nicosia''),
        FetchSettled 0 (Inr ([sampleItinerary 100, sampleItinerary 200], [])),
        SetSelectedRoute (Some (ToVillage, 1)),
        SetSelectedCity (Some ''Limassol''),
        FetchSettled 0 (Inr ([sampleItinerary 300], []))] initial)) = [sampleItinerary 300]
   \<and> \<not> selectedRouteValid (app (run [GeolocationError ''denied'',
        SetSelectedVillage (Some villageA), SetSelectedCity (Some ''Nicosia''),
        FetchSettled 0 (Inr ([sampleItinerary 100, sampleItinerary 200], [])),
        SetSelectedRoute (Some (ToVillage, 1)),
        SetSelectedCity (Some ''Limassol''),
        FetchSettled 0 (Inr ([sampleItinerary 300], []))] initial))
   \<and> selectedRoute (app (run [GeolocationError ''denied'', SetSelectedVillage (Some villageA),
        SetSelectedCity (Some ''Nicosia''),
        FetchSettled 0 (Inr ([sampleItinerary 100, sampleItinerary 200], [])),
        SetSelectedRoute (Some (ToVillage, 1)),
        SetSelectedVillage (Some villageB)] initial)) = None"
  by (simp add: dispatch_def routeEffect_def dependenciesChanged_def originOf_def
        CITY_COORDS_def initial_def initialState_def villageA_def villageB_def
        sampleItinerary_def Let_def selectedRouteValid_def routesOf_def)

end
